theory Spec2Isabelle
  imports Complex_Main
begin

section \<open>The flight-data API client (src/utils/apiclient.js)\<close>

text \<open>
  A shallow embedding of the class \<open>APIClient\<close>: its three source adapters
  (\<open>getAdsbLolFlights\<close>, \<open>getOpenSkyFlights\<close>, \<open>getAviationStackFlights\<close>) and
  the orchestrator \<open>getAllFlights\<close>. The Haversine helpers (\<open>calculateDistance\<close>,
  \<open>isInAirportZone\<close>) are left out: what they return depends on the rounding of
  double-precision arithmetic, which this embedding does not have.

  Conventions of the model.
  \<^item> A JSON field that the provider may leave out is an \<open>option\<close>; numeric fields hold
    numbers and text fields hold strings, as the providers' wire formats declare them.
    In an object of ADSB.lol, which omits the keys it has no value for, \<open>None\<close> is a
    missing key (\<open>undefined\<close>); in an OpenSky state vector and in an AviationStack
    flight it is \<open>null\<close> or a missing entry, which the code there treats alike.
  \<^item> JavaScript numbers are doubles; the model computes with \<open>real\<close> (positions, altitudes)
    and \<open>int\<close> (millisecond timestamps), so rounding is not modelled. \<open>NaN\<close> is modelled
    where the code can produce it from well-typed input (\<open>parseInt\<close> of a header).
  \<^item> \<open>axios.get\<close> is the only network primitive. Its outcome is supplied by an environment
    record, and every call is appended to a list of requests, so that "no network call" is
    the statement that this list is empty. Request URLs are abstracted to the endpoint they
    address.
  \<^item> \<open>console.log\<close> output is not modelled.
\<close>

subsection \<open>JavaScript primitives\<close>

text \<open>Truthiness, as used by \<open>!x\<close>, \<open>x || y\<close> and \<open>x ? a : b\<close>.\<close>

definition truthy_num :: "real option \<Rightarrow> bool" where
  "truthy_num v = (case v of None \<Rightarrow> False | Some x \<Rightarrow> x \<noteq> 0)"

definition truthy_str :: "string option \<Rightarrow> bool" where
  "truthy_str v = (case v of None \<Rightarrow> False | Some s \<Rightarrow> s \<noteq> [])"

definition truthy_bool :: "bool option \<Rightarrow> bool" where
  "truthy_bool v = (case v of None \<Rightarrow> False | Some b \<Rightarrow> b)"

text \<open>\<open>x || d\<close> on an optional number and on an optional string, with a default \<open>d\<close>.\<close>

definition num_or :: "real option \<Rightarrow> real \<Rightarrow> real" where
  "num_or v d = (if truthy_num v then the v else d)"

definition str_or :: "string option \<Rightarrow> string \<Rightarrow> string" where
  "str_or v d = (if truthy_str v then the v else d)"

text \<open>
  \<open>x < k\<close> for an optional number \<open>x\<close>: \<open>undefined\<close> converts to \<open>NaN\<close>, and every
  comparison with \<open>NaN\<close> is false.
\<close>

definition lt_num :: "real option \<Rightarrow> real \<Rightarrow> bool" where
  "lt_num v k = (case v of None \<Rightarrow> False | Some x \<Rightarrow> x < k)"

text \<open>
  White space of \<open>String.prototype.trim\<close> and of \<open>parseInt\<close>, among the code units
  below 256: TAB, LF, VT, FF, CR, SPACE and NBSP.
\<close>

definition js_whitespace :: "char \<Rightarrow> bool" where
  "js_whitespace ch = ((of_char ch :: nat) \<in> {9, 10, 11, 12, 13, 32, 160})"

definition js_trim :: "string \<Rightarrow> string" where
  "js_trim s = rev (dropWhile js_whitespace (rev (dropWhile js_whitespace s)))"

text \<open>Numbers that may be \<open>NaN\<close>: the retry-after arithmetic of the rate limiter.\<close>

datatype jsnum = NaN | Num int

fun js_add :: "jsnum \<Rightarrow> jsnum \<Rightarrow> jsnum" where
  "js_add (Num a) (Num b) = Num (a + b)"
| "js_add _ _ = NaN"

fun js_mul :: "jsnum \<Rightarrow> jsnum \<Rightarrow> jsnum" where
  "js_mul (Num a) (Num b) = Num (a * b)"
| "js_mul _ _ = NaN"

fun js_lt :: "jsnum \<Rightarrow> jsnum \<Rightarrow> bool" where
  "js_lt (Num a) (Num b) = (a < b)"
| "js_lt _ _ = False"

fun js_gt :: "jsnum \<Rightarrow> jsnum \<Rightarrow> bool" where
  "js_gt (Num a) (Num b) = (a > b)"
| "js_gt _ _ = False"

text \<open>
  \<open>parseInt(s)\<close> with no radix: skip leading white space, read an optional sign, switch
  to radix 16 after a \<open>0x\<close> or \<open>0X\<close> prefix, and read the longest prefix of digits; the
  result is \<open>NaN\<close> when there is no digit.
\<close>

definition digit_of :: "nat \<Rightarrow> char \<Rightarrow> nat option" where
  "digit_of radix ch =
     (let n = (of_char ch :: nat) in
      if 48 \<le> n \<and> n \<le> 57 then Some (n - 48)
      else if radix = 16 \<and> 97 \<le> n \<and> n \<le> 102 then Some (n - 87)
      else if radix = 16 \<and> 65 \<le> n \<and> n \<le> 70 then Some (n - 55)
      else None)"

fun parse_digits :: "nat \<Rightarrow> string \<Rightarrow> nat option \<Rightarrow> nat option" where
  "parse_digits radix [] acc = acc"
| "parse_digits radix (ch # cs) acc =
     (case digit_of radix ch of
        None \<Rightarrow> acc
      | Some d \<Rightarrow> parse_digits radix cs (Some (radix * (case acc of None \<Rightarrow> 0 | Some a \<Rightarrow> a) + d)))"

definition strip_sign :: "string \<Rightarrow> int \<times> string" where
  "strip_sign s =
     (case s of
        [] \<Rightarrow> (1, [])
      | ch # rest \<Rightarrow>
          if ch = CHR ''-'' then (- 1, rest)
          else if ch = CHR ''+'' then (1, rest)
          else (1, s))"

definition strip_prefix :: "string \<Rightarrow> nat \<times> string" where
  "strip_prefix s =
     (case s of
        a # b # rest \<Rightarrow>
          if a = CHR ''0'' \<and> (b = CHR ''x'' \<or> b = CHR ''X'') then (16, rest) else (10, s)
      | _ \<Rightarrow> (10, s))"

definition parseInt :: "string \<Rightarrow> jsnum" where
  "parseInt s =
     (let (sign, s1) = strip_sign (dropWhile js_whitespace s);
          (radix, s2) = strip_prefix s1
      in case parse_digits radix s2 None of
           None \<Rightarrow> NaN
         | Some n \<Rightarrow> Num (sign * int n))"

subsection \<open>The client object\<close>

text \<open>
  The fields of \<open>this\<close> set by the constructor. The credentials come from
  \<open>process.env\<close> and are \<open>None\<close> when the variable is unset. The last four fields
  are the state of the OpenSky rate limiter; only \<open>getOpenSkyFlights\<close> assigns them.
\<close>

record client =
  aviationStackKey :: "string option"
  openSkyUsername :: "string option"
  openSkyPassword :: "string option"
  useAdsbLol :: bool
  airportICAO :: string
  airportLat :: real
  airportLon :: real
  airportRadius :: real
  lastOpenSkyCall :: int
  openSkyMinInterval :: int
  openSkyRetryAfter :: jsnum
  openSkyDisabledUntil :: jsnum

definition hasOpenSkyCredentials :: "client \<Rightarrow> bool" where
  "hasOpenSkyCredentials c = (truthy_str (openSkyUsername c) \<and> truthy_str (openSkyPassword c))"

subsection \<open>The network\<close>

type_synonym headers = "(string \<times> string) list"

text \<open>
  What \<open>await axios.get(url, config)\<close> does: it resolves with a response (data and
  headers) on a 2xx status, rejects with an error that carries \<open>error.response\<close> (status
  and headers) on any other status, and rejects with an error without a response on a
  timeout or a connection failure.
\<close>

datatype 'b axios_result =
    Response 'b headers
  | ErrorResponse nat headers
  | NoResponse

text \<open>
  The requests the client can send. \<open>OpenSkyStates\<close> records whether basic
  authentication is attached; \<open>AviationStackFlights\<close> carries \<open>access_key\<close> and
  \<open>dep_iata\<close>.
\<close>

datatype request =
    AdsbPoint
  | AdsbLatLonDist
  | OpenSkyStates bool
  | AviationStackFlights string string

subsection \<open>Wire formats\<close>

text \<open>One raw aircraft object of ADSB.lol; the field \<open>ac_x\<close> is the key \<open>x\<close>.\<close>

record adsb_aircraft =
  ac_lat :: "real option"
  ac_lon :: "real option"
  ac_flight :: "string option"
  ac_r :: "string option"
  ac_hex :: "string option"
  ac_flag :: "string option"
  ac_alt_baro :: "real option"
  ac_alt_geom :: "real option"
  ac_gs :: "real option"
  ac_track :: "real option"
  ac_true_heading :: "real option"
  ac_baro_rate :: "real option"
  ac_seen :: "real option"

text \<open>
  \<open>response.data\<close>: an array of aircraft, an object whose \<open>ac\<close> key may hold the array,
  or \<open>null\<close>.
\<close>

datatype adsb_body =
    BareArray "adsb_aircraft list"
  | AcObject "adsb_aircraft list option"
  | NoData

text \<open>
  One state vector of OpenSky, an array read by index: \<open>sv_callsign\<close> is
  \<open>state[1]\<close>, \<open>sv_origin_country\<close> \<open>state[2]\<close>, \<open>sv_last_contact\<close>
  \<open>state[4]\<close>, \<open>sv_longitude\<close> \<open>state[5]\<close>, \<open>sv_latitude\<close> \<open>state[6]\<close>,
  \<open>sv_baro_altitude\<close> \<open>state[7]\<close>, \<open>sv_on_ground\<close> \<open>state[8]\<close>,
  \<open>sv_velocity\<close> \<open>state[9]\<close>, \<open>sv_true_track\<close> \<open>state[10]\<close> and
  \<open>sv_vertical_rate\<close> \<open>state[11]\<close>. The response data is the \<open>states\<close> array,
  or \<open>None\<close> when \<open>response.data\<close> or \<open>response.data.states\<close> is missing.
\<close>

record state_vector =
  sv_callsign :: "string option"
  sv_origin_country :: "string option"
  sv_last_contact :: "real option"
  sv_longitude :: "real option"
  sv_latitude :: "real option"
  sv_baro_altitude :: "real option"
  sv_on_ground :: "bool option"
  sv_velocity :: "real option"
  sv_true_track :: "real option"
  sv_vertical_rate :: "real option"

text \<open>
  One raw flight of AviationStack with its nested objects \<open>flight\<close>, \<open>airline\<close>,
  \<open>departure\<close>, \<open>arrival\<close> and \<open>aircraft\<close>, each \<open>None\<close> when the key is
  missing or \<open>null\<close>. The response data is the \<open>data\<close> array, or \<open>None\<close> when
  \<open>response.data\<close> or \<open>response.data.data\<close> is missing.
\<close>

record flight_ids =
  fl_iata :: "string option"
  fl_icao :: "string option"

record airline_info =
  al_name :: "string option"
  al_iata :: "string option"

record leg_info =
  lg_airport :: "string option"
  lg_iata :: "string option"
  lg_scheduled :: "string option"
  lg_estimated :: "string option"
  lg_actual :: "string option"
  lg_terminal :: "string option"
  lg_gate :: "string option"

record aircraft_info =
  acft_registration :: "string option"
  acft_iata :: "string option"
  acft_icao :: "string option"

record raw_flight =
  rf_flight :: "flight_ids option"
  rf_airline :: "airline_info option"
  rf_departure :: "leg_info option"
  rf_arrival :: "leg_info option"
  rf_flight_status :: "string option"
  rf_aircraft :: "aircraft_info option"

text \<open>
  The environment of one ingestion cycle: the outcome of each request if it is sent, the
  readings of \<open>Date.now()\<close> at the entry of \<open>getOpenSkyFlights\<close> and in its
  \<open>catch\<close> block, and the text of \<open>new Date().toISOString()\<close>.
\<close>

record env =
  adsb_point_reply :: "adsb_body axios_result"
  adsb_latlon_reply :: "adsb_body axios_result"
  opensky_reply :: "state_vector list option axios_result"
  aviationstack_reply :: "raw_flight list option axios_result"
  now_entry :: int
  now_catch :: int
  iso_now :: string

text \<open>The canonical position record both position adapters build.\<close>

record position =
  callsign :: string
  origin_country :: "string option"
  longitude :: "real option"
  latitude :: "real option"
  altitude :: real
  velocity :: real
  heading :: real
  vertical_rate :: real
  on_ground :: bool
  last_contact :: "real option"
  timestamp :: string

text \<open>
  What an adapter call leaves behind: the client object after the call, the list it
  returns, and the requests it sent, in order.
\<close>

record 'a run =
  client_after :: client
  returned :: "'a list"
  requests :: "request list"

subsection \<open>ADSB.lol: the unlimited position feed\<close>

text \<open>The predicate of \<open>.filter(aircraft => ...)\<close>, lines 104 to 113.\<close>

definition adsb_keep :: "adsb_aircraft \<Rightarrow> bool" where
  "adsb_keep a =
     (if \<not> truthy_num (ac_lat a) \<or> \<not> truthy_num (ac_lon a) then False
      else if \<bar>the (ac_lat a)\<bar> > 90 \<or> \<bar>the (ac_lon a)\<bar> > 180 then False
      else True)"

text \<open>The function of \<open>.map(aircraft => ...)\<close>, lines 114 to 126.\<close>

definition adsb_normalize :: "string \<Rightarrow> adsb_aircraft \<Rightarrow> position" where
  "adsb_normalize stamp a =
     \<lparr> callsign =
         (if truthy_str (ac_flight a) then js_trim (the (ac_flight a))
          else if truthy_str (ac_r a) then the (ac_r a)
          else str_or (ac_hex a) ''UNKNOWN''),
       origin_country = Some (str_or (ac_flag a) ''Unknown''),
       longitude = ac_lon a,
       latitude = ac_lat a,
       altitude =
         (if truthy_num (ac_alt_baro a) then the (ac_alt_baro a) * 3.28084
          else if truthy_num (ac_alt_geom a) then the (ac_alt_geom a) * 3.28084
          else 0),
       velocity = num_or (ac_gs a) 0,
       heading = (if truthy_num (ac_track a) then the (ac_track a) else num_or (ac_true_heading a) 0),
       vertical_rate = (if truthy_num (ac_baro_rate a) then the (ac_baro_rate a) * 196.85 else 0),
       on_ground = (lt_num (ac_alt_baro a) 100 \<or> lt_num (ac_alt_geom a) 100 \<or> False),
       last_contact = Some (num_or (ac_seen a) 0),
       timestamp = stamp \<rparr>"

text \<open>
  Line 92: \<open>Array.isArray(response.data) ? response.data : (response.data.ac || [])\<close>.
  Reading \<open>.ac\<close> of \<open>null\<close> throws a TypeError, the result \<open>None\<close>.
\<close>

definition adsb_aircraftData :: "adsb_body \<Rightarrow> adsb_aircraft list option" where
  "adsb_aircraftData body =
     (case body of
        BareArray xs \<Rightarrow> Some xs
      | AcObject (Some xs) \<Rightarrow> Some xs
      | AcObject None \<Rightarrow> Some []
      | NoData \<Rightarrow> None)"

text \<open>Lines 96 to 134: the early return on an empty array, then filter and map.\<close>

definition adsb_flights :: "string \<Rightarrow> adsb_aircraft list \<Rightarrow> position list" where
  "adsb_flights stamp aircraftData =
     (if aircraftData = [] then []
      else map (adsb_normalize stamp) (filter adsb_keep aircraftData))"

text \<open>
  The loop over the candidate endpoints, lines 68 to 84: the first endpoint that resolves
  wins, a rejected one is skipped. The result is the response data, if any, and the
  requests sent.
\<close>

fun try_endpoints :: "(request \<times> 'b axios_result) list \<Rightarrow> 'b option \<times> request list" where
  "try_endpoints [] = (None, [])"
| "try_endpoints ((url, reply) # rest) =
     (case reply of
        Response d h \<Rightarrow> (Some d, [url])
      | _ \<Rightarrow> (let (response, sent) = try_endpoints rest in (response, url # sent)))"

definition getAdsbLolFlights :: "client \<Rightarrow> env \<Rightarrow> position run" where
  "getAdsbLolFlights c e =
     (let (response, sent) =
            try_endpoints [(AdsbPoint, adsb_point_reply e), (AdsbLatLonDist, adsb_latlon_reply e)]
      in \<lparr> client_after = c,
           returned =
             (case response of
                None \<Rightarrow> []
              | Some body \<Rightarrow>
                  (case adsb_aircraftData body of
                     None \<Rightarrow> []
                   | Some aircraftData \<Rightarrow> adsb_flights (iso_now e) aircraftData)),
           requests = sent \<rparr>)"

subsection \<open>OpenSky: the quota-limited position feed\<close>

text \<open>The function of \<open>response.data.states.map(state => ...)\<close>, lines 216 to 228.\<close>

definition opensky_normalize :: "string \<Rightarrow> state_vector \<Rightarrow> position" where
  "opensky_normalize stamp state =
     \<lparr> callsign = (if truthy_str (sv_callsign state) then js_trim (the (sv_callsign state)) else ''UNKNOWN''),
       origin_country = sv_origin_country state,
       longitude = sv_longitude state,
       latitude = sv_latitude state,
       altitude = (if truthy_num (sv_baro_altitude state) then the (sv_baro_altitude state) * 3.28084 else 0),
       velocity = (if truthy_num (sv_velocity state) then the (sv_velocity state) * 1.94384 else 0),
       heading = num_or (sv_true_track state) 0,
       vertical_rate = num_or (sv_vertical_rate state) 0,
       on_ground = (truthy_bool (sv_on_ground state) \<or> False),
       last_contact = sv_last_contact state,
       timestamp = stamp \<rparr>"

text \<open>
  The \<open>catch\<close> block on a 429, lines 240 to 251. \<open>retry_header\<close> is
  \<open>error.response.headers['x-rate-limit-retry-after-seconds']\<close>.
\<close>

definition retry_header :: "headers \<Rightarrow> string option" where
  "retry_header h = map_of h ''x-rate-limit-retry-after-seconds''"

definition on_rate_limit :: "client \<Rightarrow> int \<Rightarrow> headers \<Rightarrow> client" where
  "on_rate_limit c date_now h =
     (let retryAfterSeconds = parseInt (str_or (retry_header h) ''60'');
          c1 = c\<lparr>openSkyRetryAfter := js_add (Num date_now) (js_mul retryAfterSeconds (Num 1000))\<rparr>
      in if js_gt retryAfterSeconds (Num 300)
         then c1\<lparr>openSkyDisabledUntil := openSkyRetryAfter c1\<rparr>
         else c1)"

text \<open>
  \<open>getOpenSkyFlights\<close>, lines 152 to 258. The three tests at the top return before any
  request is built. After them the request is sent; \<open>lastOpenSkyCall\<close> is assigned only
  when \<open>axios.get\<close> resolves.
\<close>

definition getOpenSkyFlights :: "client \<Rightarrow> env \<Rightarrow> position run" where
  "getOpenSkyFlights c e =
     (let now = now_entry e in
      if js_lt (Num now) (openSkyDisabledUntil c) then
        \<lparr> client_after = c, returned = [], requests = [] \<rparr>
      else if js_lt (Num now) (openSkyRetryAfter c) then
        \<lparr> client_after = c, returned = [], requests = [] \<rparr>
      else if now - lastOpenSkyCall c < openSkyMinInterval c then
        \<lparr> client_after = c, returned = [], requests = [] \<rparr>
      else
        let url = OpenSkyStates (hasOpenSkyCredentials c) in
        case opensky_reply e of
          Response dat h \<Rightarrow>
            \<lparr> client_after = c\<lparr>lastOpenSkyCall := now\<rparr>,
              returned =
                (case dat of
                   None \<Rightarrow> []
                 | Some states \<Rightarrow> map (opensky_normalize (iso_now e)) states),
              requests = [url] \<rparr>
        | ErrorResponse status h \<Rightarrow>
            \<lparr> client_after = (if status = 429 then on_rate_limit c (now_catch e) h else c),
              returned = [],
              requests = [url] \<rparr>
        | NoResponse \<Rightarrow>
            \<lparr> client_after = c, returned = [], requests = [url] \<rparr>)"

subsection \<open>AviationStack: the schedule feed\<close>

text \<open>The canonical schedule record; \<open>aircraft_iata\<close> and \<open>aircraft_icao\<close> are the keys
  \<open>iata\<close> and \<open>icao\<close> of the \<open>aircraft\<close> object.\<close>

record leg =
  airport :: "string option"
  iata :: "string option"
  scheduled :: "string option"
  estimated :: "string option"
  actual :: "string option"
  terminal :: "string option"
  gate :: "string option"

record aircraft_type =
  registration :: "string option"
  aircraft_iata :: "string option"
  aircraft_icao :: "string option"

record schedule =
  flightNumber :: "string option"
  airline :: "string option"
  airlineCode :: "string option"
  departure :: leg
  arrival :: leg
  status :: "string option"
  aircraft :: aircraft_type

definition normalize_leg :: "leg_info \<Rightarrow> leg" where
  "normalize_leg l =
     \<lparr> airport = lg_airport l, iata = lg_iata l, scheduled = lg_scheduled l,
       estimated = lg_estimated l, actual = lg_actual l, terminal = lg_terminal l,
       gate = lg_gate l \<rparr>"

text \<open>
  The function of \<open>response.data.data.map(flight => ...)\<close>, lines 302 to 330. Reading a
  property of a missing \<open>flight.flight\<close>, \<open>flight.airline\<close>, \<open>flight.departure\<close> or
  \<open>flight.arrival\<close> throws a TypeError, the result \<open>None\<close>; \<open>flight.aircraft?.x\<close>
  is \<open>undefined\<close> when \<open>flight.aircraft\<close> is missing.
\<close>

definition aviationstack_normalize :: "raw_flight \<Rightarrow> schedule option" where
  "aviationstack_normalize f =
     (case rf_flight f of
        None \<Rightarrow> None
      | Some fl \<Rightarrow>
     (case rf_airline f of
        None \<Rightarrow> None
      | Some al \<Rightarrow>
     (case rf_departure f of
        None \<Rightarrow> None
      | Some dep \<Rightarrow>
     (case rf_arrival f of
        None \<Rightarrow> None
      | Some arr \<Rightarrow>
          Some \<lparr> flightNumber = (if truthy_str (fl_iata fl) then fl_iata fl else fl_icao fl),
                 airline = al_name al,
                 airlineCode = al_iata al,
                 departure = normalize_leg dep,
                 arrival = normalize_leg arr,
                 status = rf_flight_status f,
                 aircraft =
                   \<lparr> registration = Option.bind (rf_aircraft f) acft_registration,
                     aircraft_iata = Option.bind (rf_aircraft f) acft_iata,
                     aircraft_icao = Option.bind (rf_aircraft f) acft_icao \<rparr> \<rparr>))))"

definition icaoToIata :: "(string \<times> string) list" where
  "icaoToIata =
     [(''EDDF'', ''FRA''), (''KJFK'', ''JFK''), (''EGLL'', ''LHR''), (''LFPG'', ''CDG''),
      (''EHAM'', ''AMS''), (''LEMD'', ''MAD''), (''LIRF'', ''FCO'')]"

text \<open>
  \<open>getAviationStackFlights\<close>, lines 264 to 338. An exception thrown while mapping is
  caught by the enclosing \<open>try\<close>, which returns the empty list: \<open>those\<close> is \<open>None\<close>
  as soon as one record throws.
\<close>

definition getAviationStackFlights :: "client \<Rightarrow> env \<Rightarrow> schedule run" where
  "getAviationStackFlights c e =
     (if \<not> truthy_str (aviationStackKey c) then
        \<lparr> client_after = c, returned = [], requests = [] \<rparr>
      else
        let iataCode = str_or (map_of icaoToIata (airportICAO c)) ''FRA'';
            url = AviationStackFlights (the (aviationStackKey c)) iataCode
        in \<lparr> client_after = c,
             returned =
               (case aviationstack_reply e of
                  Response dat h \<Rightarrow>
                    (case dat of
                       None \<Rightarrow> []
                     | Some flights \<Rightarrow>
                         (case those (map aviationstack_normalize flights) of
                            None \<Rightarrow> []
                          | Some normalized \<Rightarrow> normalized))
                | _ \<Rightarrow> []),
             requests = [url] \<rparr>)"

subsection \<open>The orchestrator\<close>

datatype adapter = AdsbLol | OpenSky | AviationStack

text \<open>The object \<open>getAllFlights\<close> returns; \<open>envelope_timestamp\<close> is its key
  \<open>timestamp\<close>.\<close>

record envelope =
  livePositions :: "position list"
  schedules :: "schedule list"
  envelope_timestamp :: string
  totalLive :: nat
  totalScheduled :: nat
  source :: string

text \<open>
  One run of \<open>getAllFlights\<close>: the client object after it, the envelope, the adapters
  it invoked and the requests they sent, both in order.
\<close>

record cycle =
  cycle_client :: client
  cycle_result :: envelope
  invoked :: "adapter list"
  sent :: "request list"

text \<open>
  \<open>getAllFlights\<close>, lines 343 to 376. \<open>called\<close> lists the adapters in the order
  in which control reaches their call sites. No adapter throws, so the \<open>catch\<close> that
  rethrows is never entered.
\<close>

definition getAllFlights :: "client \<Rightarrow> env \<Rightarrow> cycle" where
  "getAllFlights c e =
     (let (live, called) =
            (if useAdsbLol c then
               let adsb = getAdsbLolFlights c e in
               if length (returned adsb) = 0 then
                 let opensky = getOpenSkyFlights (client_after adsb) e in
                 (opensky\<lparr>requests := requests adsb @ requests opensky\<rparr>, [AdsbLol, OpenSky])
               else (adsb, [AdsbLol])
             else (getOpenSkyFlights c e, [OpenSky]));
          aviationStackFlights = getAviationStackFlights (client_after live) e;
          this = client_after aviationStackFlights
      in \<lparr> cycle_client = this,
           cycle_result =
             \<lparr> livePositions = returned live,
               schedules = returned aviationStackFlights,
               envelope_timestamp = iso_now e,
               totalLive = length (returned live),
               totalScheduled = length (returned aviationStackFlights),
               source =
                 (if length (returned live) > 0
                  then (if useAdsbLol this then ''ADSB.lol'' else ''OpenSky'')
                  else ''None'') \<rparr>,
           invoked = called @ [AviationStack],
           sent = requests live @ requests aviationStackFlights \<rparr>)"

subsection \<open>Properties named by the specification\<close>

text \<open>
  The valid-coordinate invariant of a position record, in the specification's words:
  latitude and longitude are present, \<open>|lat| \<le> 90\<close> and \<open>|lon| \<le> 180\<close>.
\<close>

definition valid_coordinates :: "position \<Rightarrow> bool" where
  "valid_coordinates p =
     (case (latitude p, longitude p) of
        (Some la, Some lo) \<Rightarrow> \<bar>la\<bar> \<le> 90 \<and> \<bar>lo\<bar> \<le> 180
      | _ \<Rightarrow> False)"

text \<open>
  A raw flight that has the four nested objects the schedule adapter reads without a
  guard.
\<close>

definition has_required_objects :: "raw_flight \<Rightarrow> bool" where
  "has_required_objects f =
     (rf_flight f \<noteq> None \<and> rf_airline f \<noteq> None \<and> rf_departure f \<noteq> None \<and> rf_arrival f \<noteq> None)"

subsection \<open>Sample data\<close>

text \<open>The client the constructor builds when no environment variable is set.\<close>

definition default_client :: client where
  "default_client =
     \<lparr> aviationStackKey = None, openSkyUsername = None, openSkyPassword = None,
       useAdsbLol = True, airportICAO = ''EDDF'', airportLat = 50.0379, airportLon = 8.5622,
       airportRadius = 10, lastOpenSkyCall = 0, openSkyMinInterval = 10000,
       openSkyRetryAfter = Num 0, openSkyDisabledUntil = Num 0 \<rparr>"

text \<open>An environment in which every request fails without a response.\<close>

definition offline :: env where
  "offline =
     \<lparr> adsb_point_reply = NoResponse, adsb_latlon_reply = NoResponse,
       opensky_reply = NoResponse, aviationstack_reply = NoResponse,
       now_entry = 1700000000000, now_catch = 1700000000250,
       iso_now = ''2023-11-14T22:13:20.000Z'' \<rparr>"

definition no_aircraft :: adsb_aircraft where
  "no_aircraft =
     \<lparr> ac_lat = None, ac_lon = None, ac_flight = None, ac_r = None, ac_hex = None,
       ac_flag = None, ac_alt_baro = None, ac_alt_geom = None, ac_gs = None,
       ac_track = None, ac_true_heading = None, ac_baro_rate = None, ac_seen = None \<rparr>"

text \<open>The aircraft of the specification's first end-to-end scenario.\<close>

definition frankfurt_aircraft :: adsb_aircraft where
  "frankfurt_aircraft =
     no_aircraft\<lparr>ac_lat := Some 50.05, ac_lon := Some 8.60, ac_alt_baro := Some 300\<rparr>"

definition no_state :: state_vector where
  "no_state =
     \<lparr> sv_callsign = None, sv_origin_country = None, sv_last_contact = None,
       sv_longitude = None, sv_latitude = None, sv_baro_altitude = None,
       sv_on_ground = None, sv_velocity = None, sv_true_track = None,
       sv_vertical_rate = None \<rparr>"

definition sample_leg :: leg_info where
  "sample_leg =
     \<lparr> lg_airport = Some ''Frankfurt International Airport'', lg_iata = Some ''FRA'',
       lg_scheduled = Some ''2023-11-14T23:00:00+00:00'', lg_estimated = None,
       lg_actual = None, lg_terminal = Some ''1'', lg_gate = None \<rparr>"

definition sample_flight :: raw_flight where
  "sample_flight =
     \<lparr> rf_flight = Some \<lparr> fl_iata = Some ''LH400'', fl_icao = Some ''DLH400'' \<rparr>,
       rf_airline = Some \<lparr> al_name = Some ''Lufthansa'', al_iata = Some ''LH'' \<rparr>,
       rf_departure = Some sample_leg,
       rf_arrival = Some (sample_leg\<lparr>lg_airport := Some ''John F Kennedy International'', lg_iata := Some ''JFK''\<rparr>),
       rf_flight_status = Some ''scheduled'',
       rf_aircraft = None \<rparr>"

definition keyed_client :: client where
  "keyed_client = default_client\<lparr>aviationStackKey := Some ''k3y''\<rparr>"

text \<open>Aircraft outside the valid range, on the equator, and at pressure altitude zero.\<close>

definition polar_aircraft :: adsb_aircraft where
  "polar_aircraft = no_aircraft\<lparr>ac_lat := Some 95, ac_lon := Some 8.6, ac_alt_baro := Some 9000\<rparr>"

definition equator_aircraft :: adsb_aircraft where
  "equator_aircraft = no_aircraft\<lparr>ac_lat := Some 0, ac_lon := Some 8.6, ac_alt_baro := Some 9000\<rparr>"

definition sea_level_aircraft :: adsb_aircraft where
  "sea_level_aircraft =
     no_aircraft\<lparr>ac_lat := Some 50.05, ac_lon := Some 8.6, ac_alt_baro := Some 0, ac_alt_geom := Some 500\<rparr>"

definition tracked_state :: state_vector where
  "tracked_state =
     no_state\<lparr>sv_callsign := Some ''DLH4AB  '', sv_longitude := Some 8.6, sv_latitude := Some 50.05\<rparr>"

definition complete_flight :: raw_flight where
  "complete_flight =
     sample_flight\<lparr>rf_aircraft :=
       Some \<lparr> acft_registration = Some ''D-ABYA'', acft_iata = Some ''B748'', acft_icao = None \<rparr>\<rparr>"

definition no_airline_flight :: raw_flight where
  "no_airline_flight = sample_flight\<lparr>rf_airline := None\<rparr>"

text \<open>Environments: which request is answered, and with what.\<close>

definition adsb_two :: env where
  "adsb_two =
     offline\<lparr>adsb_point_reply := Response (BareArray [frankfurt_aircraft, polar_aircraft]) []\<rparr>"

definition adsb_equator :: env where
  "adsb_equator =
     offline\<lparr>adsb_point_reply := Response (BareArray [frankfurt_aircraft, equator_aircraft]) []\<rparr>"

definition opensky_one :: env where
  "opensky_one = offline\<lparr>opensky_reply := Response (Some [tracked_state]) []\<rparr>"

definition opensky_two :: env where
  "opensky_two =
     offline\<lparr>opensky_reply :=
       Response (Some [no_state, no_state\<lparr>sv_longitude := Some 8.6, sv_latitude := Some 95\<rparr>]) []\<rparr>"

definition adsb_one :: env where
  "adsb_one =
     opensky_one\<lparr>adsb_latlon_reply := Response (AcObject (Some [frankfurt_aircraft])) []\<rparr>"

definition retry_600_headers :: headers where
  "retry_600_headers = [(''x-rate-limit-retry-after-seconds'', ''600'')]"

definition opensky_limited :: env where
  "opensky_limited = offline\<lparr>opensky_reply := ErrorResponse 429 retry_600_headers\<rparr>"

definition opensky_later :: env where
  "opensky_later = opensky_one\<lparr>now_entry := 1700000600249\<rparr>"

definition schedule_one :: env where
  "schedule_one = offline\<lparr>aviationstack_reply := Response (Some [sample_flight]) []\<rparr>"

definition schedule_two :: env where
  "schedule_two =
     offline\<lparr>aviationstack_reply := Response (Some [sample_flight, complete_flight]) []\<rparr>"

definition schedule_malformed :: env where
  "schedule_malformed =
     offline\<lparr>aviationstack_reply := Response (Some [sample_flight, no_airline_flight]) []\<rparr>"

definition disabled_client :: client where
  "disabled_client = default_client\<lparr>openSkyDisabledUntil := Num 1700000600000\<rparr>"

definition waiting_client :: client where
  "waiting_client = default_client\<lparr>openSkyRetryAfter := Num 1700000030000\<rparr>"

definition throttled_client :: client where
  "throttled_client = default_client\<lparr>lastOpenSkyCall := 1699999995000\<rparr>"

section \<open>Verification\<close>

subsection \<open>Evaluation and frame lemmas\<close>

lemmas client_defs = default_client_def keyed_client_def disabled_client_def
  waiting_client_def throttled_client_def

lemmas aircraft_defs = no_aircraft_def frankfurt_aircraft_def polar_aircraft_def
  equator_aircraft_def sea_level_aircraft_def

lemmas parse_defs = parseInt_def strip_sign_def strip_prefix_def digit_of_def js_whitespace_def

lemma adsb_client_after: "client_after (getAdsbLolFlights c e) = c"
  by (simp add: getAdsbLolFlights_def case_prod_beta)

lemma aviationstack_client_after: "client_after (getAviationStackFlights c e) = c"
  by (simp add: getAviationStackFlights_def Let_def)

lemma on_rate_limit_useAdsbLol: "useAdsbLol (on_rate_limit c t h) = useAdsbLol c"
  by (simp add: on_rate_limit_def Let_def)

lemma opensky_useAdsbLol: "useAdsbLol (client_after (getOpenSkyFlights c e)) = useAdsbLol c"
  by (simp add: getOpenSkyFlights_def Let_def on_rate_limit_useAdsbLol split: axios_result.splits)

subsection \<open>The coordinate filter of ADSB.lol\<close>

lemma adsb_keep_iff:
  "adsb_keep a \<longleftrightarrow>
     (\<exists>la lo. ac_lat a = Some la \<and> ac_lon a = Some lo \<and> la \<noteq> 0 \<and> lo \<noteq> 0 \<and>
        \<bar>la\<bar> \<le> 90 \<and> \<bar>lo\<bar> \<le> 180)"
  by (auto simp: adsb_keep_def truthy_num_def split: option.splits)

lemma valid_adsb_normalize: "adsb_keep a \<Longrightarrow> valid_coordinates (adsb_normalize stamp a)"
  by (auto simp: adsb_keep_iff valid_coordinates_def adsb_normalize_def)

lemma adsb_flights_valid: "list_all valid_coordinates (adsb_flights stamp xs)"
  by (simp add: adsb_flights_def list_all_iff valid_adsb_normalize)

lemma getAdsbLolFlights_returned:
  "returned (getAdsbLolFlights c e) = [] \<or>
   (\<exists>xs. returned (getAdsbLolFlights c e) = adsb_flights (iso_now e) xs)"
  by (auto simp: getAdsbLolFlights_def case_prod_beta split: option.splits)

lemma adsb_flights_drop:
  "\<not> adsb_keep a \<Longrightarrow> adsb_flights stamp (xs @ a # ys) = adsb_flights stamp (xs @ ys)"
  by (simp add: adsb_flights_def)

lemma zero_not_kept: "ac_lat a = Some 0 \<or> ac_lon a = Some 0 \<Longrightarrow> \<not> adsb_keep a"
  by (auto simp: adsb_keep_iff)

lemma kept_nonzero:
  "p \<in> set (adsb_flights stamp xs) \<Longrightarrow> latitude p \<noteq> Some 0 \<and> longitude p \<noteq> Some 0"
  by (auto simp: adsb_flights_def adsb_keep_iff adsb_normalize_def split: if_splits)

lemma adsb_two_run:
  "returned (getAdsbLolFlights default_client adsb_two) =
     [adsb_normalize (iso_now adsb_two) frankfurt_aircraft]"
  by (simp add: getAdsbLolFlights_def adsb_aircraftData_def adsb_flights_def adsb_keep_def
      truthy_num_def adsb_two_def offline_def aircraft_defs)

lemma adsb_equator_run:
  "returned (getAdsbLolFlights default_client adsb_equator) =
     [adsb_normalize (iso_now adsb_equator) frankfurt_aircraft]"
  by (simp add: getAdsbLolFlights_def adsb_aircraftData_def adsb_flights_def adsb_keep_def
      truthy_num_def adsb_equator_def offline_def aircraft_defs)

text \<open>
  The ADSB.lol adapter establishes the valid-coordinate invariant. Every record that
  \<open>getAdsbLolFlights\<close> returns has its latitude and longitude present, with
  \<open>|latitude| \<le> 90\<close> and \<open>|longitude| \<le> 180\<close>; and a raw aircraft whose coordinates
  are missing or out of range is left out of the output, which is the same list as if the
  entry had not been in the response.
\<close>

lemma adsb_output_valid:
  "list_all valid_coordinates (returned (getAdsbLolFlights c e)) \<and>
   (\<not> valid_coordinates (adsb_normalize stamp a) \<longrightarrow>
      adsb_flights stamp (xs @ a # ys) = adsb_flights stamp (xs @ ys))"
proof
  show "list_all valid_coordinates (returned (getAdsbLolFlights c e))"
    using getAdsbLolFlights_returned [of c e] adsb_flights_valid by auto
  show "\<not> valid_coordinates (adsb_normalize stamp a) \<longrightarrow>
      adsb_flights stamp (xs @ a # ys) = adsb_flights stamp (xs @ ys)"
    using valid_adsb_normalize adsb_flights_drop by blast
qed

lemma adsb_output_valid_example:
  "map latitude (returned (getAdsbLolFlights default_client adsb_two)) = [Some 50.05] \<and>
   list_all valid_coordinates (returned (getAdsbLolFlights default_client adsb_two)) \<and>
   \<not> valid_coordinates (adsb_normalize [] polar_aircraft) \<and>
   adsb_flights [] ([frankfurt_aircraft] @ polar_aircraft # []) =
     adsb_flights [] ([frankfurt_aircraft] @ [])"
proof -
  have bad: "\<not> valid_coordinates (adsb_normalize [] polar_aircraft)"
    by (simp add: valid_coordinates_def adsb_normalize_def aircraft_defs)
  have lat: "map latitude (returned (getAdsbLolFlights default_client adsb_two)) = [Some 50.05]"
    by (simp add: adsb_two_run adsb_normalize_def aircraft_defs)
  note r = adsb_output_valid
    [of default_client adsb_two "[]" polar_aircraft "[frankfurt_aircraft]" "[]"]
  have all: "list_all valid_coordinates (returned (getAdsbLolFlights default_client adsb_two))"
    using r by (rule conjunct1)
  have dropped: "adsb_flights [] ([frankfurt_aircraft] @ polar_aircraft # []) =
     adsb_flights [] ([frankfurt_aircraft] @ [])"
    using r [THEN conjunct2] bad by (rule mp)
  show ?thesis
    using lat all bad dropped by (intro conjI)
qed

text \<open>
  The OpenSky adapter has no such filter. A call that passes the three tests of the rate
  limiter and is answered with a \<open>states\<close> array returns one record per state vector, in
  order, with \<open>state[6]\<close> and \<open>state[5]\<close> as its latitude and longitude.
\<close>

lemma opensky_passes_coordinates_through:
  assumes "\<not> js_lt (Num (now_entry e)) (openSkyDisabledUntil c)"
    and "\<not> js_lt (Num (now_entry e)) (openSkyRetryAfter c)"
    and "\<not> now_entry e - lastOpenSkyCall c < openSkyMinInterval c"
    and "opensky_reply e = Response (Some states) h"
  shows "map latitude (returned (getOpenSkyFlights c e)) = map sv_latitude states \<and>
         map longitude (returned (getOpenSkyFlights c e)) = map sv_longitude states"
  using assms by (simp add: getOpenSkyFlights_def Let_def opensky_normalize_def comp_def)

text \<open>
  Claim C1, evaluated where it fails. OpenSky answers with two state vectors, one without
  a position and one at latitude 95: \<open>getOpenSkyFlights\<close> returns a record for each,
  the first with no latitude and the second with latitude 95, so its output does not
  satisfy the invariant that \<open>getAdsbLolFlights\<close> enforces on the same kind of record.
\<close>

theorem opensky_emits_unchecked_coordinates:
  "map latitude (returned (getOpenSkyFlights default_client opensky_two)) = [None, Some 95] \<and>
   \<not> list_all valid_coordinates (returned (getOpenSkyFlights default_client opensky_two))"
  by (simp add: getOpenSkyFlights_def opensky_normalize_def valid_coordinates_def
      opensky_two_def offline_def default_client_def no_state_def)

text \<open>
  Claim C10. A raw aircraft whose latitude or longitude is exactly \<open>0\<close> fails the
  truthiness test of the filter: it is not kept, the output is the same list as if the
  entry had not been in the response, and no run of \<open>getAdsbLolFlights\<close> returns its
  record.
\<close>

theorem adsb_drops_zero_coordinates:
  assumes "ac_lat a = Some 0 \<or> ac_lon a = Some 0"
  shows "\<not> adsb_keep a \<and>
         adsb_flights stamp (xs @ a # ys) = adsb_flights stamp (xs @ ys) \<and>
         adsb_normalize (iso_now e) a \<notin> set (returned (getAdsbLolFlights c e))"
proof -
  have nk: "\<not> adsb_keep a"
    using assms by (rule zero_not_kept)
  have "latitude (adsb_normalize (iso_now e) a) = Some 0 \<or>
        longitude (adsb_normalize (iso_now e) a) = Some 0"
    using assms by (simp add: adsb_normalize_def)
  moreover have "\<forall>p \<in> set (returned (getAdsbLolFlights c e)).
      latitude p \<noteq> Some 0 \<and> longitude p \<noteq> Some 0"
    using getAdsbLolFlights_returned [of c e] kept_nonzero by fastforce
  ultimately have "adsb_normalize (iso_now e) a \<notin> set (returned (getAdsbLolFlights c e))"
    by blast
  with nk adsb_flights_drop [OF nk] show ?thesis
    by simp
qed

theorem adsb_drops_zero_coordinates_witness:
  "ac_lat equator_aircraft = Some 0 \<and>
   \<not> adsb_keep equator_aircraft \<and>
   adsb_flights [] ([frankfurt_aircraft] @ equator_aircraft # []) =
     adsb_flights [] ([frankfurt_aircraft] @ []) \<and>
   adsb_normalize (iso_now adsb_equator) equator_aircraft
     \<notin> set (returned (getAdsbLolFlights default_client adsb_equator)) \<and>
   length (returned (getAdsbLolFlights default_client adsb_equator)) = 1"
proof -
  have z: "ac_lat equator_aircraft = Some 0"
    by (simp add: aircraft_defs)
  then have "ac_lat equator_aircraft = Some 0 \<or> ac_lon equator_aircraft = Some 0"
    by (rule disjI1)
  note r = adsb_drops_zero_coordinates
    [OF this, of "[]" "[frankfurt_aircraft]" "[]" adsb_equator default_client]
  have n: "length (returned (getAdsbLolFlights default_client adsb_equator)) = 1"
    by (simp add: adsb_equator_run)
  show ?thesis
    using z r [THEN conjunct1] r [THEN conjunct2, THEN conjunct1]
      r [THEN conjunct2, THEN conjunct2] n
    by (intro conjI)
qed

subsection \<open>Altitude and ground flag of ADSB.lol\<close>

text \<open>
  Claim C8 as stated fails where the barometric altitude is present and \<open>0\<close>: the
  field is tested by truthiness, so the geometric altitude is converted instead.
\<close>

theorem adsb_zero_baro_altitude_falls_back:
  "ac_alt_baro sea_level_aircraft = Some 0 \<and>
   altitude (adsb_normalize [] sea_level_aircraft) = 1640.42 \<and>
   altitude (adsb_normalize [] sea_level_aircraft) \<noteq> 0 * 3.28084"
  by (simp add: adsb_normalize_def truthy_num_def aircraft_defs)

text \<open>
  Claim C8, amended. The emitted altitude is the barometric altitude times 3.28084 when
  that field is present and not \<open>0\<close>, otherwise the geometric altitude times 3.28084
  when that one is present (which gives \<open>0\<close> when it is \<open>0\<close>), otherwise \<open>0\<close>. The
  ground flag is true exactly when one of the two fields is present and below 100. An
  entry with barometric altitude 300 and no geometric altitude yields the altitude
  984.252 and the ground flag false.
\<close>

theorem adsb_altitude_and_ground_flag:
  "altitude (adsb_normalize stamp a) =
     (case ac_alt_baro a of
        Some b \<Rightarrow>
          if b \<noteq> 0 then b * 3.28084
          else (case ac_alt_geom a of Some g \<Rightarrow> g * 3.28084 | None \<Rightarrow> 0)
      | None \<Rightarrow> (case ac_alt_geom a of Some g \<Rightarrow> g * 3.28084 | None \<Rightarrow> 0)) \<and>
   on_ground (adsb_normalize stamp a) =
     ((\<exists>b. ac_alt_baro a = Some b \<and> b < 100) \<or> (\<exists>g. ac_alt_geom a = Some g \<and> g < 100)) \<and>
   (ac_alt_baro a = Some 300 \<and> ac_alt_geom a = None \<longrightarrow>
      altitude (adsb_normalize stamp a) = 984.252 \<and> \<not> on_ground (adsb_normalize stamp a))"
proof (intro conjI impI)
  show "altitude (adsb_normalize stamp a) =
     (case ac_alt_baro a of
        Some b \<Rightarrow>
          if b \<noteq> 0 then b * 3.28084
          else (case ac_alt_geom a of Some g \<Rightarrow> g * 3.28084 | None \<Rightarrow> 0)
      | None \<Rightarrow> (case ac_alt_geom a of Some g \<Rightarrow> g * 3.28084 | None \<Rightarrow> 0))"
    by (simp add: adsb_normalize_def truthy_num_def split: option.splits)
  show "on_ground (adsb_normalize stamp a) =
     ((\<exists>b. ac_alt_baro a = Some b \<and> b < 100) \<or> (\<exists>g. ac_alt_geom a = Some g \<and> g < 100))"
    by (simp add: adsb_normalize_def lt_num_def split: option.splits)
next
  assume h: "ac_alt_baro a = Some 300 \<and> ac_alt_geom a = None"
  then show "altitude (adsb_normalize stamp a) = 984.252"
    by (simp add: adsb_normalize_def truthy_num_def)
  from h show "\<not> on_ground (adsb_normalize stamp a)"
    by (simp add: adsb_normalize_def lt_num_def)
qed

theorem adsb_altitude_and_ground_flag_witness:
  "ac_alt_baro frankfurt_aircraft = Some 300 \<and> ac_alt_geom frankfurt_aircraft = None \<and>
   altitude (adsb_normalize [] frankfurt_aircraft) = 984.252 \<and>
   \<not> on_ground (adsb_normalize [] frankfurt_aircraft)"
proof -
  have h: "ac_alt_baro frankfurt_aircraft = Some 300 \<and> ac_alt_geom frankfurt_aircraft = None"
    by (simp add: aircraft_defs)
  have w: "altitude (adsb_normalize [] frankfurt_aircraft) = 984.252 \<and>
        \<not> on_ground (adsb_normalize [] frankfurt_aircraft)"
    using adsb_altitude_and_ground_flag [of "[]" frankfurt_aircraft, THEN conjunct2, THEN conjunct2] h
    by (rule mp)
  show ?thesis
    using h [THEN conjunct1] h [THEN conjunct2] w [THEN conjunct1] w [THEN conjunct2]
    by (intro conjI)
qed


subsection \<open>The rate limiter of OpenSky\<close>

text \<open>
  Claim C6. When the client is disabled, or waiting for a retry-after, or the minimum
  interval since the last call has not elapsed (the three tests in the order of the
  source), \<open>getOpenSkyFlights\<close> returns the empty list, sends no request, and leaves the
  client object, and with it the rate limiter, as it was. The model has no error result:
  the call returns.
\<close>

theorem governor_rejects_without_request:
  assumes "js_lt (Num (now_entry e)) (openSkyDisabledUntil c) \<or>
           js_lt (Num (now_entry e)) (openSkyRetryAfter c) \<or>
           now_entry e - lastOpenSkyCall c < openSkyMinInterval c"
  shows "getOpenSkyFlights c e = \<lparr> client_after = c, returned = [], requests = [] \<rparr>"
proof -
  consider
      (disabled) "js_lt (Num (now_entry e)) (openSkyDisabledUntil c)"
    | (waiting) "\<not> js_lt (Num (now_entry e)) (openSkyDisabledUntil c)"
        "js_lt (Num (now_entry e)) (openSkyRetryAfter c)"
    | (throttled) "\<not> js_lt (Num (now_entry e)) (openSkyDisabledUntil c)"
        "\<not> js_lt (Num (now_entry e)) (openSkyRetryAfter c)"
        "now_entry e - lastOpenSkyCall c < openSkyMinInterval c"
    using assms by blast
  then show ?thesis
  proof cases
    case disabled
    then show ?thesis
      by (simp add: getOpenSkyFlights_def)
  next
    case waiting
    then show ?thesis
      by (simp add: getOpenSkyFlights_def)
  next
    case throttled
    then show ?thesis
      by (simp add: getOpenSkyFlights_def)
  qed
qed

lemma opensky_one_run:
  "getOpenSkyFlights default_client opensky_one =
     \<lparr> client_after = default_client\<lparr>lastOpenSkyCall := 1700000000000\<rparr>,
       returned = [opensky_normalize (iso_now opensky_one) tracked_state],
       requests = [OpenSkyStates False] \<rparr>"
  by (simp add: getOpenSkyFlights_def opensky_one_def offline_def default_client_def
      hasOpenSkyCredentials_def truthy_str_def)

theorem governor_rejects_without_request_witness:
  "js_lt (Num (now_entry opensky_one)) (openSkyDisabledUntil disabled_client) \<and>
   getOpenSkyFlights disabled_client opensky_one =
     \<lparr> client_after = disabled_client, returned = [], requests = [] \<rparr> \<and>
   js_lt (Num (now_entry opensky_one)) (openSkyRetryAfter waiting_client) \<and>
   getOpenSkyFlights waiting_client opensky_one =
     \<lparr> client_after = waiting_client, returned = [], requests = [] \<rparr> \<and>
   now_entry opensky_one - lastOpenSkyCall throttled_client < openSkyMinInterval throttled_client \<and>
   getOpenSkyFlights throttled_client opensky_one =
     \<lparr> client_after = throttled_client, returned = [], requests = [] \<rparr> \<and>
   requests (getOpenSkyFlights default_client opensky_one) = [OpenSkyStates False]"
proof -
  have d: "js_lt (Num (now_entry opensky_one)) (openSkyDisabledUntil disabled_client)"
    by (simp add: opensky_one_def offline_def client_defs)
  have w: "js_lt (Num (now_entry opensky_one)) (openSkyRetryAfter waiting_client)"
    by (simp add: opensky_one_def offline_def client_defs)
  have t: "now_entry opensky_one - lastOpenSkyCall throttled_client
             < openSkyMinInterval throttled_client"
    by (simp add: opensky_one_def offline_def client_defs)
  have sent: "requests (getOpenSkyFlights default_client opensky_one) = [OpenSkyStates False]"
    by (simp add: opensky_one_run)
  show ?thesis
    using d governor_rejects_without_request [OF disjI1, OF d]
      w governor_rejects_without_request [OF disjI2, OF disjI1, OF w]
      t governor_rejects_without_request [OF disjI2, OF disjI2, OF t]
      sent
    by (intro conjI)
qed

lemma on_rate_limit_retry:
  "parseInt (str_or (retry_header h) ''60'') = Num n \<Longrightarrow>
   openSkyRetryAfter (on_rate_limit c t h) = Num (t + n * 1000) \<and>
   openSkyDisabledUntil (on_rate_limit c t h) =
     (if n > 300 then Num (t + n * 1000) else openSkyDisabledUntil c)"
  by (simp add: on_rate_limit_def Let_def)

lemma default_retry:
  "retry_header h = None \<Longrightarrow> parseInt (str_or (retry_header h) ''60'') = Num 60"
  by (simp add: str_or_def truthy_str_def parse_defs)

lemma retry_600:
  "retry_header h = Some ''600'' \<Longrightarrow> parseInt (str_or (retry_header h) ''60'') = Num 600"
  by (simp add: str_or_def truthy_str_def parse_defs)

lemma opensky_429:
  assumes "\<not> js_lt (Num (now_entry e)) (openSkyDisabledUntil c)"
    and "\<not> js_lt (Num (now_entry e)) (openSkyRetryAfter c)"
    and "\<not> now_entry e - lastOpenSkyCall c < openSkyMinInterval c"
    and "opensky_reply e = ErrorResponse 429 h"
  shows "getOpenSkyFlights c e =
     \<lparr> client_after = on_rate_limit c (now_catch e) h, returned = [],
       requests = [OpenSkyStates (hasOpenSkyCredentials c)] \<rparr>"
  using assms by (simp add: getOpenSkyFlights_def Let_def)

text \<open>
  Claim C5. Take a call of \<open>getOpenSkyFlights\<close> that passes the three tests and is
  answered with status 429. It returns the empty list. With no retry-after header the
  retry-after time becomes the time of the \<open>catch\<close> block plus 60 seconds and the
  disabled-until time is unchanged. Whenever the header (or the default \<open>'60'\<close>) parses
  to the number \<open>n\<close>, the retry-after time becomes that time plus \<open>n * 1000\<close>, and the
  disabled-until time is set to the same value exactly when \<open>n > 300\<close>. After a 429
  with the header \<open>600\<close>, a call at any time before that time plus 600 seconds returns
  the empty list, sends no request and leaves the client as it was, so that the same
  holds for every further call in that window.
\<close>

theorem rate_limit_429_sets_backoff:
  assumes open1: "\<not> js_lt (Num (now_entry e)) (openSkyDisabledUntil c)"
    and open2: "\<not> js_lt (Num (now_entry e)) (openSkyRetryAfter c)"
    and open3: "\<not> now_entry e - lastOpenSkyCall c < openSkyMinInterval c"
    and reply: "opensky_reply e = ErrorResponse 429 h"
  shows
    "returned (getOpenSkyFlights c e) = [] \<and>
     (retry_header h = None \<longrightarrow>
        openSkyRetryAfter (client_after (getOpenSkyFlights c e)) = Num (now_catch e + 60 * 1000) \<and>
        openSkyDisabledUntil (client_after (getOpenSkyFlights c e)) = openSkyDisabledUntil c) \<and>
     (\<forall>n. parseInt (str_or (retry_header h) ''60'') = Num n \<longrightarrow>
        openSkyRetryAfter (client_after (getOpenSkyFlights c e)) = Num (now_catch e + n * 1000) \<and>
        openSkyDisabledUntil (client_after (getOpenSkyFlights c e)) =
          (if n > 300 then Num (now_catch e + n * 1000) else openSkyDisabledUntil c)) \<and>
     (retry_header h = Some ''600'' \<and> now_entry e' < now_catch e + 600 * 1000 \<longrightarrow>
        getOpenSkyFlights (client_after (getOpenSkyFlights c e)) e' =
          \<lparr> client_after = client_after (getOpenSkyFlights c e), returned = [], requests = [] \<rparr>)"
proof -
  let ?c' = "client_after (getOpenSkyFlights c e)"
  have run: "getOpenSkyFlights c e =
     \<lparr> client_after = on_rate_limit c (now_catch e) h, returned = [],
       requests = [OpenSkyStates (hasOpenSkyCredentials c)] \<rparr>"
    using open1 open2 open3 reply by (rule opensky_429)
  have after: "?c' = on_rate_limit c (now_catch e) h"
    by (simp add: run)
  have a: "returned (getOpenSkyFlights c e) = []"
    by (simp add: run)
  have b: "retry_header h = None \<longrightarrow>
        openSkyRetryAfter ?c' = Num (now_catch e + 60 * 1000) \<and>
        openSkyDisabledUntil ?c' = openSkyDisabledUntil c"
  proof
    assume "retry_header h = None"
    then have "parseInt (str_or (retry_header h) ''60'') = Num 60"
      by (rule default_retry)
    then show "openSkyRetryAfter ?c' = Num (now_catch e + 60 * 1000) \<and>
        openSkyDisabledUntil ?c' = openSkyDisabledUntil c"
      unfolding after using on_rate_limit_retry [of h 60 c "now_catch e"] by simp
  qed
  have c: "\<forall>n. parseInt (str_or (retry_header h) ''60'') = Num n \<longrightarrow>
        openSkyRetryAfter ?c' = Num (now_catch e + n * 1000) \<and>
        openSkyDisabledUntil ?c' =
          (if n > 300 then Num (now_catch e + n * 1000) else openSkyDisabledUntil c)"
    unfolding after by (intro allI impI) (rule on_rate_limit_retry)
  have d: "retry_header h = Some ''600'' \<and> now_entry e' < now_catch e + 600 * 1000 \<longrightarrow>
        getOpenSkyFlights ?c' e' = \<lparr> client_after = ?c', returned = [], requests = [] \<rparr>"
  proof
    assume h: "retry_header h = Some ''600'' \<and> now_entry e' < now_catch e + 600 * 1000"
    then have "parseInt (str_or (retry_header h) ''60'') = Num 600"
      using retry_600 [of h] by simp
    then have "openSkyDisabledUntil ?c' = Num (now_catch e + 600 * 1000)"
      unfolding after using on_rate_limit_retry [of h 600 c "now_catch e"] by simp
    with h have "js_lt (Num (now_entry e')) (openSkyDisabledUntil ?c')"
      by simp
    then show "getOpenSkyFlights ?c' e' = \<lparr> client_after = ?c', returned = [], requests = [] \<rparr>"
      by (simp add: getOpenSkyFlights_def Let_def)
  qed
  show ?thesis
    by (rule conjI [OF a conjI [OF b conjI [OF c d]]])
qed

theorem rate_limit_429_sets_backoff_witness:
  "\<not> js_lt (Num (now_entry opensky_limited)) (openSkyDisabledUntil default_client) \<and>
   \<not> js_lt (Num (now_entry opensky_limited)) (openSkyRetryAfter default_client) \<and>
   \<not> now_entry opensky_limited - lastOpenSkyCall default_client
        < openSkyMinInterval default_client \<and>
   opensky_reply opensky_limited = ErrorResponse 429 retry_600_headers \<and>
   retry_header retry_600_headers = Some ''600'' \<and>
   now_entry opensky_later < now_catch opensky_limited + 600 * 1000 \<and>
   openSkyRetryAfter (client_after (getOpenSkyFlights default_client opensky_limited)) =
     Num (now_catch opensky_limited + 600 * 1000) \<and>
   openSkyDisabledUntil (client_after (getOpenSkyFlights default_client opensky_limited)) =
     Num (now_catch opensky_limited + 600 * 1000) \<and>
   getOpenSkyFlights (client_after (getOpenSkyFlights default_client opensky_limited)) opensky_later =
     \<lparr> client_after = client_after (getOpenSkyFlights default_client opensky_limited),
       returned = [], requests = [] \<rparr> \<and>
   requests (getOpenSkyFlights default_client opensky_later) = [OpenSkyStates False]"
proof -
  have h1: "\<not> js_lt (Num (now_entry opensky_limited)) (openSkyDisabledUntil default_client)"
    by (simp add: opensky_limited_def default_client_def offline_def)
  have h2: "\<not> js_lt (Num (now_entry opensky_limited)) (openSkyRetryAfter default_client)"
    by (simp add: opensky_limited_def default_client_def offline_def)
  have h3: "\<not> now_entry opensky_limited - lastOpenSkyCall default_client
               < openSkyMinInterval default_client"
    by (simp add: opensky_limited_def default_client_def offline_def)
  have h4: "opensky_reply opensky_limited = ErrorResponse 429 retry_600_headers"
    by (simp add: opensky_limited_def)
  have h5: "retry_header retry_600_headers = Some ''600''"
    by (simp add: retry_header_def retry_600_headers_def)
  have h6: "now_entry opensky_later < now_catch opensky_limited + 600 * 1000"
    by (simp add: opensky_later_def opensky_limited_def offline_def)
  have p: "parseInt (str_or (retry_header retry_600_headers) ''60'') = Num 600"
    using h5 by (rule retry_600)
  note r = rate_limit_429_sets_backoff [OF h1 h2 h3 h4, of opensky_later]
  note w = r [THEN conjunct2, THEN conjunct2, THEN conjunct1, rule_format, OF p]
  have w1: "openSkyRetryAfter (client_after (getOpenSkyFlights default_client opensky_limited)) =
             Num (now_catch opensky_limited + 600 * 1000)"
    using w by (rule conjunct1)
  have w2: "openSkyDisabledUntil (client_after (getOpenSkyFlights default_client opensky_limited)) =
             Num (now_catch opensky_limited + 600 * 1000)"
    using w [THEN conjunct2] by simp
  have w3: "getOpenSkyFlights (client_after (getOpenSkyFlights default_client opensky_limited)) opensky_later =
     \<lparr> client_after = client_after (getOpenSkyFlights default_client opensky_limited),
       returned = [], requests = [] \<rparr>"
    using r [THEN conjunct2, THEN conjunct2, THEN conjunct2, rule_format, OF conjI [OF h5 h6]] .
  have w4: "requests (getOpenSkyFlights default_client opensky_later) = [OpenSkyStates False]"
    by (simp add: getOpenSkyFlights_def opensky_later_def opensky_one_def offline_def
        default_client_def hasOpenSkyCredentials_def truthy_str_def)
  show ?thesis
    using h1 h2 h3 h4 h5 h6 w1 w2 w3 w4 by (intro conjI)
qed

subsection \<open>The schedule adapter\<close>

text \<open>
  Claim C7. When \<open>AVIATIONSTACK_API_KEY\<close> is unset or empty,
  \<open>getAviationStackFlights\<close> returns the empty list and sends no request.
\<close>

theorem schedule_adapter_requires_key:
  assumes "aviationStackKey c = None \<or> aviationStackKey c = Some []"
  shows "getAviationStackFlights c e = \<lparr> client_after = c, returned = [], requests = [] \<rparr>"
proof -
  have "\<not> truthy_str (aviationStackKey c)"
    using assms by (auto simp: truthy_str_def)
  then show ?thesis
    by (simp add: getAviationStackFlights_def)
qed

lemma schedule_one_run:
  "getAviationStackFlights keyed_client schedule_one =
     \<lparr> client_after = keyed_client,
       returned = [the (aviationstack_normalize sample_flight)],
       requests = [AviationStackFlights ''k3y'' ''FRA''] \<rparr>"
  by (simp add: getAviationStackFlights_def aviationstack_normalize_def truthy_str_def
      str_or_def icaoToIata_def keyed_client_def default_client_def schedule_one_def
      offline_def sample_flight_def)

theorem schedule_adapter_requires_key_witness:
  "aviationStackKey default_client = None \<and>
   getAviationStackFlights default_client schedule_one =
     \<lparr> client_after = default_client, returned = [], requests = [] \<rparr> \<and>
   requests (getAviationStackFlights keyed_client schedule_one) =
     [AviationStackFlights ''k3y'' ''FRA'']"
proof -
  have k: "aviationStackKey default_client = None"
    by (simp add: default_client_def)
  have s: "requests (getAviationStackFlights keyed_client schedule_one) =
     [AviationStackFlights ''k3y'' ''FRA'']"
    by (simp add: schedule_one_run)
  show ?thesis
    using k schedule_adapter_requires_key [OF disjI1, OF k, of schedule_one] s
    by (intro conjI)
qed


lemma normalize_None_iff: "aviationstack_normalize f = None \<longleftrightarrow> \<not> has_required_objects f"
  by (simp add: aviationstack_normalize_def has_required_objects_def split: option.splits)

lemma those_map_Some:
  "list_all (\<lambda>x. g x \<noteq> None) xs \<Longrightarrow> \<exists>ys. those (map g xs) = Some ys \<and> map Some ys = map g xs"
  by (induction xs) auto

lemma those_map_None:
  "\<not> list_all (\<lambda>x. g x \<noteq> None) xs \<Longrightarrow> those (map g xs) = None"
  by (induction xs) (auto split: option.splits)

lemma required_iff:
  "list_all has_required_objects fs = list_all (\<lambda>x. aviationstack_normalize x \<noteq> None) fs"
  by (simp add: normalize_None_iff)

lemma aviationstack_returned:
  assumes "truthy_str (aviationStackKey c)"
    and "aviationstack_reply e = Response (Some flights) h"
  shows "returned (getAviationStackFlights c e) =
     (case those (map aviationstack_normalize flights) of
        None \<Rightarrow> []
      | Some normalized \<Rightarrow> normalized)"
  using assms by (simp add: getAviationStackFlights_def Let_def)

lemma missing_aircraft:
  "has_required_objects f \<Longrightarrow> rf_aircraft f = None \<Longrightarrow>
   map_option aircraft (aviationstack_normalize f) =
     Some \<lparr> registration = None, aircraft_iata = None, aircraft_icao = None \<rparr>"
  by (auto simp: aviationstack_normalize_def has_required_objects_def)

text \<open>
  Claim C3 as stated fails: a record of the batch that lacks its \<open>airline\<close> object makes
  the mapping throw, and the enclosing \<open>catch\<close> returns the empty list, although the
  other record of the batch is well formed.
\<close>

theorem schedule_batch_collapses:
  "aviationstack_normalize sample_flight \<noteq> None \<and>
   aviationstack_reply schedule_malformed = Response (Some [sample_flight, no_airline_flight]) [] \<and>
   returned (getAviationStackFlights keyed_client schedule_malformed) = []"
  by (simp add: getAviationStackFlights_def aviationstack_normalize_def truthy_str_def
      keyed_client_def default_client_def schedule_malformed_def no_airline_flight_def
      offline_def sample_flight_def)

text \<open>
  Claim C3, amended. With a key configured and a response that carries the flights
  array: when every raw flight has its \<open>flight\<close>, \<open>airline\<close>, \<open>departure\<close> and
  \<open>arrival\<close> objects, the adapter returns the normalization of each record, in order;
  a record whose optional \<open>aircraft\<close> object is missing is among them, with the three
  aircraft fields undefined; when some record lacks one of the four objects, the adapter
  returns the empty list. In no case does it raise.
\<close>

theorem schedule_batch_all_or_nothing:
  assumes key: "truthy_str (aviationStackKey c)"
    and reply: "aviationstack_reply e = Response (Some flights) h"
  shows "(list_all has_required_objects flights \<longrightarrow>
            map Some (returned (getAviationStackFlights c e)) =
              map aviationstack_normalize flights) \<and>
         (\<not> list_all has_required_objects flights \<longrightarrow>
            returned (getAviationStackFlights c e) = []) \<and>
         (has_required_objects f \<and> rf_aircraft f = None \<longrightarrow>
            map_option aircraft (aviationstack_normalize f) =
              Some \<lparr> registration = None, aircraft_iata = None, aircraft_icao = None \<rparr>)"
proof (intro conjI impI)
  assume "list_all has_required_objects flights"
  then obtain ys where "those (map aviationstack_normalize flights) = Some ys"
      and "map Some ys = map aviationstack_normalize flights"
    using those_map_Some [of aviationstack_normalize flights] unfolding required_iff by blast
  then show "map Some (returned (getAviationStackFlights c e)) =
      map aviationstack_normalize flights"
    by (simp add: aviationstack_returned [OF key reply])
next
  assume "\<not> list_all has_required_objects flights"
  then have "those (map aviationstack_normalize flights) = None"
    unfolding required_iff by (rule those_map_None)
  then show "returned (getAviationStackFlights c e) = []"
    by (simp add: aviationstack_returned [OF key reply])
next
  assume "has_required_objects f \<and> rf_aircraft f = None"
  then show "map_option aircraft (aviationstack_normalize f) =
              Some \<lparr> registration = None, aircraft_iata = None, aircraft_icao = None \<rparr>"
    by (simp add: missing_aircraft)
qed

theorem schedule_batch_all_or_nothing_witness:
  "truthy_str (aviationStackKey keyed_client) \<and>
   list_all has_required_objects [sample_flight, complete_flight] \<and>
   length (returned (getAviationStackFlights keyed_client schedule_two)) = 2 \<and>
   \<not> list_all has_required_objects [sample_flight, no_airline_flight] \<and>
   returned (getAviationStackFlights keyed_client schedule_malformed) = [] \<and>
   has_required_objects sample_flight \<and>
   rf_aircraft sample_flight = None \<and>
   map_option aircraft (aviationstack_normalize sample_flight) =
     Some \<lparr> registration = None, aircraft_iata = None, aircraft_icao = None \<rparr>"
proof -
  have k: "truthy_str (aviationStackKey keyed_client)"
    by (simp add: keyed_client_def truthy_str_def)
  have r1: "aviationstack_reply schedule_two = Response (Some [sample_flight, complete_flight]) []"
    by (simp add: schedule_two_def)
  have r2: "aviationstack_reply schedule_malformed =
      Response (Some [sample_flight, no_airline_flight]) []"
    by (simp add: schedule_malformed_def)
  have s1: "has_required_objects sample_flight"
    by (simp add: has_required_objects_def sample_flight_def)
  have s2: "rf_aircraft sample_flight = None"
    by (simp add: sample_flight_def)
  have g: "list_all has_required_objects [sample_flight, complete_flight]"
    by (simp add: has_required_objects_def sample_flight_def complete_flight_def)
  have b: "\<not> list_all has_required_objects [sample_flight, no_airline_flight]"
    by (simp add: has_required_objects_def no_airline_flight_def)
  have "map Some (returned (getAviationStackFlights keyed_client schedule_two)) =
      map aviationstack_normalize [sample_flight, complete_flight]"
    using schedule_batch_all_or_nothing [OF k r1, of sample_flight, THEN conjunct1] g
    by (rule mp)
  then have "length (map Some (returned (getAviationStackFlights keyed_client schedule_two))) =
      length (map aviationstack_normalize [sample_flight, complete_flight])"
    by (rule arg_cong)
  then have w1: "length (returned (getAviationStackFlights keyed_client schedule_two)) = 2"
    by simp
  note r = schedule_batch_all_or_nothing [OF k r2, of sample_flight]
  have w2: "returned (getAviationStackFlights keyed_client schedule_malformed) = []"
    using r [THEN conjunct2, THEN conjunct1] b by (rule mp)
  have w3: "map_option aircraft (aviationstack_normalize sample_flight) =
     Some \<lparr> registration = None, aircraft_iata = None, aircraft_icao = None \<rparr>"
    using r [THEN conjunct2, THEN conjunct2] conjI [OF s1 s2] by (rule mp)
  show ?thesis
    using k g w1 b w2 s1 s2 w3 by (intro conjI)
qed

subsection \<open>The orchestrator\<close>

lemma try_endpoints_sent: "set (snd (try_endpoints eps)) \<subseteq> fst ` set eps"
proof (induction eps)
  case Nil
  show ?case by simp
next
  case (Cons ep eps)
  obtain url reply where ep: "ep = (url, reply)"
    by (cases ep)
  show ?case
    using Cons.IH unfolding ep
    by (cases reply) (auto simp: case_prod_beta)
qed

lemma adsb_requests_eq:
  "requests (getAdsbLolFlights c e) =
   snd (try_endpoints [(AdsbPoint, adsb_point_reply e), (AdsbLatLonDist, adsb_latlon_reply e)])"
  by (simp add: getAdsbLolFlights_def case_prod_beta)

lemma adsb_requests: "set (requests (getAdsbLolFlights c e)) \<subseteq> {AdsbPoint, AdsbLatLonDist}"
  using try_endpoints_sent
    [of "[(AdsbPoint, adsb_point_reply e), (AdsbLatLonDist, adsb_latlon_reply e)]"]
  unfolding adsb_requests_eq by simp

lemma aviationstack_requests:
  "OpenSkyStates auth \<notin> set (requests (getAviationStackFlights c e))"
  by (simp add: getAviationStackFlights_def Let_def)

lemma primary_empty:
  "useAdsbLol c \<Longrightarrow> returned (getAdsbLolFlights c e) = [] \<Longrightarrow>
   invoked (getAllFlights c e) = [AdsbLol, OpenSky, AviationStack] \<and>
   livePositions (cycle_result (getAllFlights c e)) = returned (getOpenSkyFlights c e) \<and>
   cycle_client (getAllFlights c e) = client_after (getOpenSkyFlights c e) \<and>
   sent (getAllFlights c e) =
     requests (getAdsbLolFlights c e) @ requests (getOpenSkyFlights c e) @
     requests (getAviationStackFlights (client_after (getOpenSkyFlights c e)) e)"
  by (simp add: getAllFlights_def Let_def adsb_client_after aviationstack_client_after)

lemma primary_nonempty:
  "useAdsbLol c \<Longrightarrow> returned (getAdsbLolFlights c e) \<noteq> [] \<Longrightarrow>
   invoked (getAllFlights c e) = [AdsbLol, AviationStack] \<and>
   livePositions (cycle_result (getAllFlights c e)) = returned (getAdsbLolFlights c e) \<and>
   cycle_client (getAllFlights c e) = c \<and>
   sent (getAllFlights c e) =
     requests (getAdsbLolFlights c e) @ requests (getAviationStackFlights c e)"
  by (simp add: getAllFlights_def Let_def adsb_client_after aviationstack_client_after)

lemma adsb_offline_run:
  "getAdsbLolFlights default_client opensky_one =
     \<lparr> client_after = default_client, returned = [], requests = [AdsbPoint, AdsbLatLonDist] \<rparr>"
  by (simp add: getAdsbLolFlights_def opensky_one_def offline_def)

lemma adsb_one_run:
  "returned (getAdsbLolFlights default_client adsb_one) =
     [adsb_normalize (iso_now adsb_one) frankfurt_aircraft]"
  by (simp add: getAdsbLolFlights_def adsb_one_def opensky_one_def offline_def
      adsb_aircraftData_def adsb_flights_def adsb_keep_def truthy_num_def aircraft_defs)

lemma no_key_run:
  "aviationStackKey c = None \<Longrightarrow>
   getAviationStackFlights c e = \<lparr> client_after = c, returned = [], requests = [] \<rparr>"
  by (simp add: getAviationStackFlights_def truthy_str_def)

text \<open>
  Claim C4. In a run of \<open>getAllFlights\<close> with \<open>useAdsbLol\<close> set: when
  \<open>getAdsbLolFlights\<close> returns the empty list, \<open>getOpenSkyFlights\<close> is invoked exactly
  once, and the run carries the effects of that one call: the positions returned are the
  ones it returns, the client is left as it leaves it, and the requests sent are those of
  the primary adapter, then its own, then those of the schedule adapter. When
  \<open>getAdsbLolFlights\<close> returns one or more records, \<open>getOpenSkyFlights\<close> is not invoked:
  the positions are those of the primary adapter, the client is unchanged, and no request
  to OpenSky is sent.
\<close>

theorem fallback_invoked_iff_primary_empty:
  assumes "useAdsbLol c"
  shows "(returned (getAdsbLolFlights c e) = [] \<longrightarrow>
            count_list (invoked (getAllFlights c e)) OpenSky = 1 \<and>
            livePositions (cycle_result (getAllFlights c e)) = returned (getOpenSkyFlights c e) \<and>
            cycle_client (getAllFlights c e) = client_after (getOpenSkyFlights c e) \<and>
            sent (getAllFlights c e) =
              requests (getAdsbLolFlights c e) @ requests (getOpenSkyFlights c e) @
              requests (getAviationStackFlights (client_after (getOpenSkyFlights c e)) e)) \<and>
         (returned (getAdsbLolFlights c e) \<noteq> [] \<longrightarrow>
            count_list (invoked (getAllFlights c e)) OpenSky = 0 \<and>
            livePositions (cycle_result (getAllFlights c e)) = returned (getAdsbLolFlights c e) \<and>
            cycle_client (getAllFlights c e) = c \<and>
            sent (getAllFlights c e) =
              requests (getAdsbLolFlights c e) @ requests (getAviationStackFlights c e) \<and>
            OpenSkyStates auth \<notin> set (sent (getAllFlights c e)))"
proof (intro conjI impI)
  assume em: "returned (getAdsbLolFlights c e) = []"
  note r = primary_empty [OF assms em]
  from r show "count_list (invoked (getAllFlights c e)) OpenSky = 1"
    by simp
  from r show "livePositions (cycle_result (getAllFlights c e)) = returned (getOpenSkyFlights c e)"
    by (elim conjE)
  from r show "cycle_client (getAllFlights c e) = client_after (getOpenSkyFlights c e)"
    by (elim conjE)
  from r show "sent (getAllFlights c e) =
      requests (getAdsbLolFlights c e) @ requests (getOpenSkyFlights c e) @
      requests (getAviationStackFlights (client_after (getOpenSkyFlights c e)) e)"
    by (elim conjE)
next
  assume ne: "returned (getAdsbLolFlights c e) \<noteq> []"
  note r = primary_nonempty [OF assms ne]
  from r show "count_list (invoked (getAllFlights c e)) OpenSky = 0"
    by simp
  from r show "livePositions (cycle_result (getAllFlights c e)) = returned (getAdsbLolFlights c e)"
    by (elim conjE)
  from r show "cycle_client (getAllFlights c e) = c"
    by (elim conjE)
  from r show s: "sent (getAllFlights c e) =
      requests (getAdsbLolFlights c e) @ requests (getAviationStackFlights c e)"
    by (elim conjE)
  show "OpenSkyStates auth \<notin> set (sent (getAllFlights c e))"
    unfolding s using adsb_requests [of c e] aviationstack_requests [of auth c e] by auto
qed

theorem fallback_invoked_iff_primary_empty_witness:
  "useAdsbLol default_client \<and>
   returned (getAdsbLolFlights default_client opensky_one) = [] \<and>
   count_list (invoked (getAllFlights default_client opensky_one)) OpenSky = 1 \<and>
   livePositions (cycle_result (getAllFlights default_client opensky_one)) =
     [opensky_normalize (iso_now opensky_one) tracked_state] \<and>
   cycle_client (getAllFlights default_client opensky_one) =
     default_client\<lparr>lastOpenSkyCall := 1700000000000\<rparr> \<and>
   sent (getAllFlights default_client opensky_one) =
     [AdsbPoint, AdsbLatLonDist, OpenSkyStates False] \<and>
   returned (getAdsbLolFlights default_client adsb_one) \<noteq> [] \<and>
   count_list (invoked (getAllFlights default_client adsb_one)) OpenSky = 0 \<and>
   livePositions (cycle_result (getAllFlights default_client adsb_one)) =
     [adsb_normalize (iso_now adsb_one) frankfurt_aircraft] \<and>
   cycle_client (getAllFlights default_client adsb_one) = default_client \<and>
   OpenSkyStates False \<notin> set (sent (getAllFlights default_client adsb_one))"
proof -
  have u: "useAdsbLol default_client"
    by (simp add: default_client_def)
  have e1: "returned (getAdsbLolFlights default_client opensky_one) = []"
    by (simp add: adsb_offline_run)
  have e2: "returned (getAdsbLolFlights default_client adsb_one) \<noteq> []"
    by (simp add: adsb_one_run)
  have k: "aviationStackKey (default_client\<lparr>lastOpenSkyCall := 1700000000000\<rparr>) = None"
    by (simp add: default_client_def)
  note a = fallback_invoked_iff_primary_empty [OF u, of opensky_one, THEN conjunct1, THEN mp, OF e1]
  note b = fallback_invoked_iff_primary_empty [OF u, of adsb_one False, THEN conjunct2, THEN mp, OF e2]
  have a1: "count_list (invoked (getAllFlights default_client opensky_one)) OpenSky = 1"
    using a by (elim conjE)
  have a2: "livePositions (cycle_result (getAllFlights default_client opensky_one)) =
     [opensky_normalize (iso_now opensky_one) tracked_state]"
    using a by (simp add: opensky_one_run)
  have a3: "cycle_client (getAllFlights default_client opensky_one) =
     default_client\<lparr>lastOpenSkyCall := 1700000000000\<rparr>"
    using a by (simp add: opensky_one_run)
  have a4: "sent (getAllFlights default_client opensky_one) =
     [AdsbPoint, AdsbLatLonDist, OpenSkyStates False]"
    using a by (simp add: opensky_one_run adsb_offline_run no_key_run [OF k])
  have b1: "count_list (invoked (getAllFlights default_client adsb_one)) OpenSky = 0"
    using b by (elim conjE)
  have b2: "livePositions (cycle_result (getAllFlights default_client adsb_one)) =
     [adsb_normalize (iso_now adsb_one) frankfurt_aircraft]"
    using b by (simp add: adsb_one_run)
  have b3: "cycle_client (getAllFlights default_client adsb_one) = default_client"
    using b by (elim conjE)
  have b4: "OpenSkyStates False \<notin> set (sent (getAllFlights default_client adsb_one))"
    using b by (elim conjE)
  show ?thesis
    using u e1 a1 a2 a3 a4 e2 b1 b2 b3 b4 by (intro conjI)
qed

text \<open>
  Claim C2, evaluated where it fails. The primary feed is preferred, both ADSB.lol
  endpoints fail, and OpenSky answers with one state vector: the positions returned are
  those of \<open>getOpenSkyFlights\<close>, and \<open>source\<close> is \<open>ADSB.lol\<close>.
\<close>

theorem source_names_preferred_feed_after_fallback:
  "useAdsbLol default_client \<and>
   returned (getAdsbLolFlights default_client opensky_one) = [] \<and>
   livePositions (cycle_result (getAllFlights default_client opensky_one)) =
     returned (getOpenSkyFlights default_client opensky_one) \<and>
   map callsign (livePositions (cycle_result (getAllFlights default_client opensky_one))) =
     [''DLH4AB''] \<and>
   sent (getAllFlights default_client opensky_one) =
     [AdsbPoint, AdsbLatLonDist, OpenSkyStates False] \<and>
   source (cycle_result (getAllFlights default_client opensky_one)) = ''ADSB.lol''"
proof -
  have u: "useAdsbLol default_client"
    by (simp add: default_client_def)
  have s: "getAviationStackFlights (default_client\<lparr>lastOpenSkyCall := 1700000000000\<rparr>) opensky_one =
      \<lparr> client_after = default_client\<lparr>lastOpenSkyCall := 1700000000000\<rparr>,
        returned = [], requests = [] \<rparr>"
    by (simp add: getAviationStackFlights_def truthy_str_def default_client_def)
  have cs: "callsign (opensky_normalize (iso_now opensky_one) tracked_state) = ''DLH4AB''"
    by (simp add: opensky_normalize_def tracked_state_def no_state_def truthy_str_def
        js_trim_def js_whitespace_def)
  show ?thesis
    using u cs
    by (simp add: getAllFlights_def Let_def adsb_offline_run opensky_one_run s)
qed

end
